theory Spec2Isabelle
  imports Main "HOL-Library.Word"
begin

unbundle bit_operations_syntax

section \<open>Data model\<close>

text \<open>
  Modelled from the spec: the canvas structure is declared in \<open>cucul_internals.h\<close>,
  which is not among the sources. A canvas is a grid of \<open>width * height\<close> cells stored
  row-major (index \<open>x + y * width\<close>) in two parallel buffers, \<open>chars\<close> (code points)
  and \<open>attrs\<close> (packed 32-bit attributes), plus the current drawing attribute
  \<open>curattr\<close>; these are the fields the attribute functions touch. The extents are
  kept as naturals and the coordinates (C \<open>int\<close>) as integers: an allocated canvas
  has fewer than \<open>2^31\<close> cells, so the cast \<open>(int)cv->width\<close> changes nothing, and
  the functions test the coordinates before any index is formed, so an index is only
  ever computed for \<open>0 \<le> x < width\<close> and \<open>0 \<le> y < height\<close>, where it does not
  wrap.
\<close>

type_synonym uint8 = "8 word"
type_synonym uint16 = "16 word"
type_synonym uint32 = "32 word"
type_synonym ulong = "64 word"

record canvas =
  width :: nat
  height :: nat
  chars :: "uint32 list"
  attrs :: "uint32 list"
  curattr :: uint32

text \<open>
  The functions report failure through their return value and the global \<open>errno\<close>.
  The state threaded through the calls is the canvas together with \<open>errno\<close>
  (the build is taken with \<open>HAVE_ERRNO_H\<close> defined and with a 64-bit
  \<open>unsigned long\<close>, so that the range test on attributes is live).
\<close>

datatype errno_code = ENONE | EINVAL

record state =
  cv :: canvas
  errno :: errno_code

text \<open>Both buffers hold exactly one entry per cell.\<close>

definition canvas_ok :: "canvas \<Rightarrow> bool" where
  "canvas_ok c \<longleftrightarrow>
     length (chars c) = width c * height c \<and> length (attrs c) = width c * height c"

text \<open>
  Modelled from the spec: the constants of the public header \<open>cucul.h\<close>, which is not
  among the sources. The ANSI index range is 0x00 to 0x20 inclusive, with the sixteen
  palette colours at 0x00 to 0x0f, the default-colour sentinel at 0x10 and the
  transparent sentinel at 0x20; black is palette entry 0 and light gray entry 7. The
  continuation marker is the reserved code point stored in the right half of a
  fullwidth pair; nothing below depends on its value.
\<close>

definition CUCUL_BLACK :: nat where "CUCUL_BLACK = 0x00"
definition CUCUL_LIGHTGRAY :: nat where "CUCUL_LIGHTGRAY = 0x07"
definition CUCUL_DEFAULT :: nat where "CUCUL_DEFAULT = 0x10"
definition CUCUL_TRANSPARENT :: nat where "CUCUL_TRANSPARENT = 0x20"
definition CUCUL_MAGIC_FULLWIDTH :: uint32 where "CUCUL_MAGIC_FULLWIDTH = 0x000ffffe"

section \<open>Canvas attribute accessors\<close>

definition cell_index :: "canvas \<Rightarrow> int \<Rightarrow> int \<Rightarrow> nat" where
  "cell_index c x y = nat (x + y * int (width c))"

definition cucul_get_attr :: "canvas \<Rightarrow> int \<Rightarrow> int \<Rightarrow> ulong" where
  "cucul_get_attr c x y =
     (if x < 0 \<or> x \<ge> int (width c) \<or> y < 0 \<or> y \<ge> int (height c)
      then ucast (curattr c)
      else ucast (attrs c ! cell_index c x y))"

definition cucul_set_attr :: "state \<Rightarrow> ulong \<Rightarrow> int \<times> state" where
  "cucul_set_attr s attr =
     (if attr > 0xffffffff then (- 1, s\<lparr>errno := EINVAL\<rparr>)
      else
        let attr' = (if attr < 0x00000010
                     then (ucast (curattr (cv s)) AND 0xfffffff0) OR attr
                     else attr)
        in (0, s\<lparr>cv := (cv s)\<lparr>curattr := ucast attr'\<rparr>\<rparr>))"

text \<open>
  \<open>cucul_putattr\<close>: after the range test and the bounds test, the function takes
  pointers \<open>curchar\<close> and \<open>curattr\<close> to the cell, rewrites \<open>curattr[0]\<close> from its own
  old value and the canvas's current attribute, and copies \<open>curattr[0]\<close> to the
  left or right neighbour when a continuation marker is involved. The parameter
  \<open>attr\<close> is used by the range test only.
\<close>

definition cucul_putattr :: "state \<Rightarrow> int \<Rightarrow> int \<Rightarrow> ulong \<Rightarrow> int \<times> state" where
  "cucul_putattr s x y attr =
     (if attr > 0xffffffff then (- 1, s\<lparr>errno := EINVAL\<rparr>)
      else if x < 0 \<or> x \<ge> int (width (cv s)) \<or> y < 0 \<or> y \<ge> int (height (cv s))
      then (0, s)
      else
        let i = cell_index (cv s) x y;
            a0 = attrs (cv s) ! i;
            as1 = (if a0 < 0x00000010
                   then (attrs (cv s))[i := (curattr (cv s) AND 0xfffffff0) OR a0]
                   else attrs (cv s));
            as2 = (if x \<noteq> 0 \<and> chars (cv s) ! i = CUCUL_MAGIC_FULLWIDTH
                   then as1[i - 1 := as1 ! i]
                   else if x + 1 < int (width (cv s))
                           \<and> chars (cv s) ! (i + 1) = CUCUL_MAGIC_FULLWIDTH
                   then as1[i + 1 := as1 ! i]
                   else as1)
        in (0, s\<lparr>cv := (cv s)\<lparr>attrs := as2\<rparr>\<rparr>))"

definition cucul_set_color_ansi :: "state \<Rightarrow> uint8 \<Rightarrow> uint8 \<Rightarrow> int \<times> state" where
  "cucul_set_color_ansi s fg bg =
     (if fg > 0x20 \<or> bg > 0x20 then (- 1, s\<lparr>errno := EINVAL\<rparr>)
      else
        let attr = push_bit 18 (ucast (bg OR 0x40) :: uint32)
                   OR push_bit 4 (ucast (fg OR 0x40) :: uint32)
        in (0, s\<lparr>cv := (cv s)\<lparr>curattr := (curattr (cv s) AND 0x0000000f) OR attr\<rparr>\<rparr>))"

definition cucul_set_color_argb :: "state \<Rightarrow> uint32 \<Rightarrow> uint32 \<Rightarrow> int \<times> state" where
  "cucul_set_color_argb s fg bg =
     (if fg > 0xffff \<or> bg > 0xffff then (- 1, s\<lparr>errno := EINVAL\<rparr>)
      else
        let fg1 = (if fg < 0x100 then fg + 0x100 else fg);
            bg1 = (if bg < 0x100 then bg + 0x100 else bg);
            fg2 = (drop_bit 1 fg1 AND 0x7ff) OR push_bit 11 (drop_bit 13 fg1);
            bg2 = (drop_bit 1 bg1 AND 0x7ff) OR push_bit 11 (drop_bit 13 bg1);
            attr = push_bit 18 bg2 OR push_bit 4 fg2
        in (0, s\<lparr>cv := (cv s)\<lparr>curattr := (curattr (cv s) AND 0x0000000f) OR attr\<rparr>\<rparr>))"

section \<open>Colourspace conversions\<close>

text \<open>RGB colours for the ANSI palette on 16 bits (4-4-4-4), and the same on 14 bits (3-4-4-3).\<close>

definition ansitab16 :: "uint16 list" where
  "ansitab16 =
     [0xf000, 0xf00a, 0xf0a0, 0xf0aa, 0xfa00, 0xfa0a, 0xfa50, 0xfaaa,
      0xf555, 0xf55f, 0xf5f5, 0xf5ff, 0xff55, 0xff5f, 0xfff5, 0xffff]"

definition ansitab14 :: "uint16 list" where
  "ansitab14 =
     [0x3800, 0x3805, 0x3850, 0x3855, 0x3d00, 0x3d05, 0x3d28, 0x3d55,
      0x3aaa, 0x3aaf, 0x3afa, 0x3aff, 0x3faa, 0x3faf, 0x3ffa, 0x3fff]"

text \<open>
  A read of a 16-entry table. The C code indexes the static array without a check;
  an index past the end is an out-of-bounds read, which the model reports as \<open>None\<close>.
\<close>

definition tab_at :: "uint16 list \<Rightarrow> nat \<Rightarrow> uint16 option" where
  "tab_at t i = (if i < length t then Some (t ! i) else None)"

text \<open>
  One iteration of the search loop of \<open>nearest_ansi\<close>, for palette index \<open>i\<close>, on
  the loop state \<open>(best, dist)\<close>. The operands \<open>a\<close> and \<open>b\<close> are C \<open>int\<close>s obtained
  by integer promotion of the 16-bit values, and \<open>d\<close> is at most \<open>3 * 15 * 15\<close>,
  so nothing wraps and the arithmetic is that of unbounded integers.
\<close>

definition nearest_ansi_step :: "uint16 \<Rightarrow> nat \<times> int \<Rightarrow> nat \<Rightarrow> nat \<times> int" where
  "nearest_ansi_step argb14 st i =
     (let t = uint (ansitab14 ! i);
          v = uint argb14;
          d0 = 0;
          a1 = drop_bit 7 t AND 0xf;
          b1 = drop_bit 7 v AND 0xf;
          d1 = d0 + (a1 - b1) * (a1 - b1);
          a2 = drop_bit 3 t AND 0xf;
          b2 = drop_bit 3 v AND 0xf;
          d2 = d1 + (a2 - b2) * (a2 - b2);
          a3 = push_bit 1 t AND 0xf;
          b3 = push_bit 1 v AND 0xf;
          d3 = d2 + (a3 - b3) * (a3 - b3)
      in if d3 < snd st then (i, d3) else st)"

definition nearest_ansi :: "uint16 \<Rightarrow> uint8" where
  "nearest_ansi argb14 =
     (if argb14 < (0x10 OR 0x40) then ucast (argb14 XOR 0x40)
      else if argb14 = (of_nat CUCUL_DEFAULT OR 0x40)
              \<or> argb14 = (of_nat CUCUL_TRANSPARENT OR 0x40)
      then ucast (argb14 XOR 0x40)
      else if argb14 < 0x0fff then of_nat CUCUL_TRANSPARENT
      else of_nat (fst (foldl (nearest_ansi_step argb14) (CUCUL_DEFAULT, 0x3fff) [0..<16])))"

definition cucul_attr_to_ansi_fg :: "ulong \<Rightarrow> uint8" where
  "cucul_attr_to_ansi_fg attr = nearest_ansi (drop_bit 4 (ucast attr :: uint16) AND 0x3fff)"

definition cucul_attr_to_ansi_bg :: "ulong \<Rightarrow> uint8" where
  "cucul_attr_to_ansi_bg attr = nearest_ansi (ucast (drop_bit 18 attr))"

definition cucul_attr_to_ansi8 :: "uint32 \<Rightarrow> uint8" where
  "cucul_attr_to_ansi8 attr =
     (let fg = nearest_ansi (ucast (drop_bit 4 attr AND 0x3fff));
          bg = nearest_ansi (ucast (drop_bit 18 attr));
          fg' = (if fg = of_nat CUCUL_DEFAULT \<or> fg = of_nat CUCUL_TRANSPARENT
                 then of_nat CUCUL_LIGHTGRAY else fg);
          bg' = (if bg = of_nat CUCUL_DEFAULT \<or> bg = of_nat CUCUL_TRANSPARENT
                 then of_nat CUCUL_BLACK else bg)
      in fg' OR push_bit 4 bg')"

definition cucul_attr_to_rgb12fg :: "uint32 \<Rightarrow> uint16 option" where
  "cucul_attr_to_rgb12fg attr =
     (let fg = ucast (drop_bit 4 attr AND 0x3fff) :: uint16
      in if fg < (0x10 OR 0x40)
         then map_option (\<lambda>c. c AND 0x0fff) (tab_at ansitab16 (unat (fg XOR 0x40)))
         else if fg = (of_nat CUCUL_DEFAULT OR 0x40)
         then map_option (\<lambda>c. c AND 0x0fff) (tab_at ansitab16 CUCUL_LIGHTGRAY)
         else if fg = (of_nat CUCUL_TRANSPARENT OR 0x40)
         then map_option (\<lambda>c. c AND 0x0fff) (tab_at ansitab16 CUCUL_LIGHTGRAY)
         else Some (push_bit 1 fg AND 0x0fff))"

definition cucul_attr_to_rgb12bg :: "uint32 \<Rightarrow> uint16 option" where
  "cucul_attr_to_rgb12bg attr =
     (let bg = ucast (drop_bit 18 attr) :: uint16
      in if bg < (0x10 OR 0x40)
         then map_option (\<lambda>c. c AND 0x0fff) (tab_at ansitab16 (unat (bg XOR 0x40)))
         else if bg = (of_nat CUCUL_DEFAULT OR 0x40)
         then map_option (\<lambda>c. c AND 0x0fff) (tab_at ansitab16 CUCUL_BLACK)
         else if bg = (of_nat CUCUL_TRANSPARENT OR 0x40)
         then map_option (\<lambda>c. c AND 0x0fff) (tab_at ansitab16 CUCUL_BLACK)
         else Some (push_bit 1 bg AND 0x0fff))"

text \<open>The four nibbles of a 16-bit value, most significant first, as stored into \<open>argb\<close>.\<close>

definition nibbles :: "uint16 \<Rightarrow> uint8 list" where
  "nibbles c =
     [ucast (drop_bit 12 c), ucast (drop_bit 8 c AND 0xf),
      ucast (drop_bit 4 c AND 0xf), ucast (c AND 0xf)]"

definition cucul_attr_to_argb4 :: "uint32 \<Rightarrow> uint8 list option" where
  "cucul_attr_to_argb4 attr =
     (let fg = ucast (drop_bit 4 attr AND 0x3fff) :: uint16;
          bg = ucast (drop_bit 18 attr) :: uint16;
          bg' = (if bg < (0x10 OR 0x40) then tab_at ansitab16 (unat (bg XOR 0x40))
                 else if bg = (of_nat CUCUL_DEFAULT OR 0x40)
                 then tab_at ansitab16 CUCUL_BLACK
                 else if bg = (of_nat CUCUL_TRANSPARENT OR 0x40) then Some 0x0fff
                 else Some ((push_bit 2 bg AND 0xf000) OR (push_bit 1 bg AND 0x0fff)));
          fg' = (if fg < (0x10 OR 0x40) then tab_at ansitab16 (unat (fg XOR 0x40))
                 else if fg = (of_nat CUCUL_DEFAULT OR 0x40)
                 then tab_at ansitab16 CUCUL_LIGHTGRAY
                 else if fg = (of_nat CUCUL_TRANSPARENT OR 0x40) then Some 0x0fff
                 else Some ((push_bit 2 fg AND 0xf000) OR (push_bit 1 fg AND 0x0fff)))
      in case bg' of
           None \<Rightarrow> None
         | Some b \<Rightarrow> (case fg' of None \<Rightarrow> None | Some f \<Rightarrow> Some (nibbles b @ nibbles f)))"

section \<open>Sample canvases\<close>

text \<open>
  A one-row canvas of three cells: a plain letter, then a fullwidth ideograph with its
  continuation marker. The colours are ANSI pairs as \<open>cucul_set_color_ansi\<close> stores
  them; the two halves of the pair start out with different style flags.
\<close>

definition row3 :: canvas where
  "row3 = \<lparr>width = 3, height = 1,
           chars = [0x41, 0x4e2d, CUCUL_MAGIC_FULLWIDTH],
           attrs = [0x01400470, 0x01440490, 0x01440498],
           curattr = 0x01000470\<rparr>"

definition st3 :: state where
  "st3 = \<lparr>cv = row3, errno = ENONE\<rparr>"

text \<open>A single cell holding a space, with a truecolor attribute.\<close>

definition cell1 :: canvas where
  "cell1 = \<lparr>width = 1, height = 1, chars = [0x20], attrs = [0x12345670], curattr = 0x01000470\<rparr>"

definition st1 :: state where
  "st1 = \<lparr>cv = cell1, errno = ENONE\<rparr>"

section \<open>Specification-side notions\<close>

text \<open>
  A fullwidth pair is a glyph cell followed, immediately to its right in the same row,
  by a cell holding the continuation marker. The cell \<open>(x, y)\<close> is the continuation
  marker of a pair when it lies inside the canvas, is not in the first column, holds the
  marker, and its left neighbour holds a glyph (something other than the marker).
\<close>

definition continuation_at :: "canvas \<Rightarrow> int \<Rightarrow> int \<Rightarrow> bool" where
  "continuation_at c x y \<longleftrightarrow>
     0 < x \<and> x < int (width c) \<and> 0 \<le> y \<and> y < int (height c)
     \<and> chars c ! cell_index c x y = CUCUL_MAGIC_FULLWIDTH
     \<and> chars c ! cell_index c (x - 1) y \<noteq> CUCUL_MAGIC_FULLWIDTH"





text \<open>
  The 16-bit ARGB value a 14-bit colour field stands for in the ARGB4 output, for a
  field that carries the palette offset: a palette index selects its table entry, the
  default sentinel selects the entry \<open>dflt\<close> (black for a background, light gray for a
  foreground), the transparent sentinel is \<open>0x0fff\<close> (alpha zero), and a truecolor
  value is widened from 3-4-4-3 to 4-4-4-4.
\<close>

definition argb16_spec :: "nat \<Rightarrow> uint16 \<Rightarrow> uint16" where
  "argb16_spec dflt v =
     (if v < 0x50 then ansitab16 ! (unat v - 0x40)
      else if v = 0x50 then ansitab16 ! dflt
      else if v = 0x60 then 0x0fff
      else (push_bit 2 v AND 0xf000) OR (push_bit 1 v AND 0x0fff))"

text \<open>A group of nibbles read as one number, most significant nibble first.\<close>

definition join_nibbles :: "uint8 list \<Rightarrow> nat" where
  "join_nibbles ns = foldl (\<lambda>acc n. acc * 16 + unat n) 0 ns"

section \<open>Out-of-bounds access\<close>

text \<open>
  Claim C6. For coordinates outside the canvas (\<open>x < 0\<close>, \<open>x \<ge> width\<close>, \<open>y < 0\<close> or
  \<open>y \<ge> height\<close>), \<open>cucul_get_attr\<close> returns the current default attribute, and
  \<open>cucul_putattr\<close> with any attribute below \<open>2^32\<close> returns 0 and hands back the
  state it was given: no cell character, no cell attribute, not the default attribute
  (and not \<open>errno\<close>) has changed.
\<close>

theorem out_of_bounds_silent:
  assumes "x < 0 \<or> x \<ge> int (width (cv s)) \<or> y < 0 \<or> y \<ge> int (height (cv s))"
  shows "cucul_get_attr (cv s) x y = ucast (curattr (cv s))
         \<and> (attr \<le> 0xffffffff \<longrightarrow> cucul_putattr s x y attr = (0, s))"
  using assms by (auto simp: cucul_get_attr_def cucul_putattr_def)

theorem out_of_bounds_silent_witness:
  "(3 :: int) \<ge> int (width (cv st3))
   \<and> cucul_get_attr (cv st3) 3 0 = 0x01000470
   \<and> cucul_putattr st3 3 0 0x12345678 = (0, st3)"
  using out_of_bounds_silent [of 3 st3 0 "0x12345678"]
  by (simp add: st3_def row3_def)

section \<open>Invalid arguments\<close>

text \<open>
  Claim C5. An attribute above \<open>0xffffffff\<close> given to \<open>cucul_set_attr\<close> or
  \<open>cucul_putattr\<close>, a foreground or background index above \<open>0x20\<close> given to
  \<open>cucul_set_color_ansi\<close>, and a colour above \<open>0xffff\<close> given to
  \<open>cucul_set_color_argb\<close> each make the call return -1 with \<open>errno\<close> set to
  \<open>EINVAL\<close>, and the canvas after the call is the canvas before it: every cell's
  character and attribute and the current default attribute are unchanged.
\<close>

theorem invalid_argument_rejected:
  "(attr > 0xffffffff \<longrightarrow>
      cucul_set_attr s attr = (- 1, s\<lparr>errno := EINVAL\<rparr>)
      \<and> cucul_putattr s x y attr = (- 1, s\<lparr>errno := EINVAL\<rparr>))
   \<and> (fg > 0x20 \<or> bg > 0x20 \<longrightarrow>
      cucul_set_color_ansi s fg bg = (- 1, s\<lparr>errno := EINVAL\<rparr>))
   \<and> (fg' > 0xffff \<or> bg' > 0xffff \<longrightarrow>
      cucul_set_color_argb s fg' bg' = (- 1, s\<lparr>errno := EINVAL\<rparr>))
   \<and> cv (s\<lparr>errno := EINVAL\<rparr>) = cv s"
  by (simp add: cucul_set_attr_def cucul_putattr_def cucul_set_color_ansi_def
      cucul_set_color_argb_def)

theorem invalid_argument_rejected_witness:
  "cucul_set_attr st3 0x100000000 = (- 1, st3\<lparr>errno := EINVAL\<rparr>)
   \<and> cucul_putattr st3 1 0 0x100000000 = (- 1, st3\<lparr>errno := EINVAL\<rparr>)
   \<and> cucul_set_color_ansi st3 0x21 0x00 = (- 1, st3\<lparr>errno := EINVAL\<rparr>)
   \<and> cucul_set_color_ansi st3 0x00 0x21 = (- 1, st3\<lparr>errno := EINVAL\<rparr>)
   \<and> cucul_set_color_argb st3 0x10000 0x0000 = (- 1, st3\<lparr>errno := EINVAL\<rparr>)
   \<and> cucul_set_color_argb st3 0x0000 0x10000 = (- 1, st3\<lparr>errno := EINVAL\<rparr>)
   \<and> cv (st3\<lparr>errno := EINVAL\<rparr>) = row3"
  using invalid_argument_rejected [where attr = "0x100000000" and s = st3 and x = 1 and y = 0
      and fg = "0x21" and bg = "0x00" and fg' = "0x10000" and bg' = "0x0000"]
    invalid_argument_rejected [where attr = "0x100000000" and s = st3 and x = 1 and y = 0
      and fg = "0x00" and bg = "0x21" and fg' = "0x0000" and bg' = "0x10000"]
  by (simp add: st3_def)

section \<open>Writing a cell attribute\<close>

text \<open>
  Past the range test, the result of \<open>cucul_putattr\<close> does not depend on the attribute
  it is given.
\<close>

lemma putattr_attr_unused:
  "a1 \<le> 0xffffffff \<Longrightarrow> a2 \<le> 0xffffffff \<Longrightarrow> cucul_putattr s x y a1 = cucul_putattr s x y a2"
  by (simp add: cucul_putattr_def not_less [symmetric])

text \<open>
  Claim C1, evaluated on the code at a failing input. On the one-cell canvas whose cell
  attribute is \<open>0x12345670\<close>, \<open>cucul_putattr\<close> at \<open>(0, 0)\<close> with the attribute
  \<open>0xabcdef10\<close> returns 0 and leaves the state as it was; reading the cell back gives
  the old \<open>0x12345670\<close>, not the attribute that was put.
\<close>

theorem putattr_drops_attr:
  "cucul_putattr st1 0 0 0xabcdef10 = (0, st1)
   \<and> cucul_get_attr (cv (snd (cucul_putattr st1 0 0 0xabcdef10))) 0 0 = 0x12345670"
  by (simp add: cucul_putattr_def cucul_get_attr_def st1_def cell1_def cell_index_def Let_def)

text \<open>
  Claim C2, evaluated on the code at a failing input. On the same canvas, putting the
  style-only attribute \<open>0x01\<close> at \<open>(0, 0)\<close> leaves the cell at \<open>0x12345670\<close>, where
  the merge of the style flags onto the cell's colour bits would be \<open>0x12345671\<close>.
\<close>

theorem putattr_no_style_merge:
  "cucul_get_attr (cv st1) 0 0 = 0x12345670
   \<and> fst (cucul_putattr st1 0 0 0x01) = 0
   \<and> cucul_get_attr (cv (snd (cucul_putattr st1 0 0 0x01))) 0 0 = 0x12345670
   \<and> (0x12345670 AND 0xfffffff0) OR 0x01 = (0x12345671 :: ulong)"
  by (simp add: cucul_putattr_def cucul_get_attr_def st1_def cell1_def cell_index_def Let_def)

section \<open>ANSI colours\<close>

lemma mask4_numeral: "(0xf :: 'a::len word) = mask 4"
  by (simp add: mask_eq_exp_minus_1)

lemma mask14_numeral: "(0x3fff :: 'a::len word) = mask 14"
  by (simp add: mask_eq_exp_minus_1)

lemma bit_uint8_less: "bit (f :: uint8) n \<Longrightarrow> n < 8"
  by (auto dest: bit_imp_le_length)

lemma field_extract_fg:
  fixes c :: uint32 and f b :: uint8
  shows "drop_bit 4 (ucast (ucast ((c AND 0xf) OR (push_bit 18 (ucast b) OR push_bit 4 (ucast f)))
           :: ulong) :: uint16) AND 0x3fff = ucast f"
  unfolding mask4_numeral mask14_numeral
  by (rule bit_word_eqI) (auto simp: bit_simps dest: bit_uint8_less)

lemma field_extract_bg:
  fixes c :: uint32 and f b :: uint8
  shows "(ucast (drop_bit 18 (ucast ((c AND 0xf) OR (push_bit 18 (ucast b) OR push_bit 4 (ucast f)))
           :: ulong)) :: uint16) = ucast b"
  unfolding mask4_numeral mask14_numeral
  by (rule bit_word_eqI) (auto simp: bit_simps dest: bit_uint8_less)

lemma nearest_ansi_index_table:
  "\<forall>n\<in>set [0..<33]. nearest_ansi (ucast ((of_nat n :: uint8) OR 0x40)) =
     (if 0x10 < n \<and> n < 0x20 then of_nat CUCUL_TRANSPARENT else of_nat n)"
  by code_simp

lemma nearest_ansi_index:
  fixes f :: uint8
  assumes "f \<le> 0x20"
  shows "nearest_ansi (ucast (f OR 0x40)) =
     (if 0x10 < f \<and> f < 0x20 then of_nat CUCUL_TRANSPARENT else f)"
proof -
  have "unat f \<le> 32" using assms by (simp add: word_le_nat_alt)
  then have "unat f \<in> set [0..<33]" by simp
  from nearest_ansi_index_table [rule_format, OF this]
  show ?thesis by (simp add: word_less_nat_alt)
qed

text \<open>
  Claim C3. For \<open>fg, bg \<le> 0x20\<close>, \<open>cucul_set_color_ansi\<close> succeeds, and on the
  resulting current attribute (read with \<open>cucul_get_attr\<close> at \<open>(-1, -1)\<close>)
  \<open>cucul_attr_to_ansi_fg\<close> returns \<open>fg\<close> and \<open>cucul_attr_to_ansi_bg\<close> returns
  \<open>bg\<close>, except for the indices strictly between the default sentinel \<open>0x10\<close> and
  the transparent sentinel \<open>0x20\<close>: those fall under the too-transparent threshold
  and come back as the transparent sentinel. The pair \<open>(0x09, 0x01)\<close> round-trips
  exactly.
\<close>

theorem ansi_round_trip:
  assumes "fg \<le> 0x20" and "bg \<le> 0x20"
  shows "fst (cucul_set_color_ansi s fg bg) = 0
     \<and> (let a = cucul_get_attr (cv (snd (cucul_set_color_ansi s fg bg))) (- 1) (- 1)
        in cucul_attr_to_ansi_fg a
             = (if 0x10 < fg \<and> fg < 0x20 then of_nat CUCUL_TRANSPARENT else fg)
         \<and> cucul_attr_to_ansi_bg a
             = (if 0x10 < bg \<and> bg < 0x20 then of_nat CUCUL_TRANSPARENT else bg))"
proof -
  have ok: "\<not> (fg > 0x20 \<or> bg > 0x20)" using assms by (simp add: not_less)
  show ?thesis
    using nearest_ansi_index [OF assms(1)] nearest_ansi_index [OF assms(2)]
    by (simp add: cucul_set_color_ansi_def ok cucul_get_attr_def Let_def
        cucul_attr_to_ansi_fg_def cucul_attr_to_ansi_bg_def field_extract_fg field_extract_bg)
qed

theorem ansi_round_trip_witness:
  "fst (cucul_set_color_ansi st3 0x09 0x01) = 0
   \<and> cucul_attr_to_ansi_fg
       (cucul_get_attr (cv (snd (cucul_set_color_ansi st3 0x09 0x01))) (- 1) (- 1)) = 0x09
   \<and> cucul_attr_to_ansi_bg
       (cucul_get_attr (cv (snd (cucul_set_color_ansi st3 0x09 0x01))) (- 1) (- 1)) = 0x01"
  using ansi_round_trip [of "0x09" "0x01" st3]
  by (simp add: Let_def)

text \<open>
  The foreground conversion narrows the attribute to 16 bits before it shifts, so the
  quantizer only ever sees bits 4 to 15 of the attribute.
\<close>

lemma mask12_numeral: "(0x0fff :: 'a::len word) = mask 12"
  by (simp add: mask_eq_exp_minus_1)

lemma ansi_fg_reads_twelve_bits:
  "cucul_attr_to_ansi_fg attr = nearest_ansi (ucast (drop_bit 4 attr AND 0x0fff))"
proof -
  have "drop_bit 4 (ucast attr :: uint16) AND mask 14 = ucast (drop_bit 4 attr AND mask 12)"
    by (rule bit_word_eqI) (auto simp: bit_simps)
  then show ?thesis
    by (simp only: cucul_attr_to_ansi_fg_def mask14_numeral mask12_numeral)
qed

text \<open>
  Claim C7, evaluated on the code at a failing input. The attribute \<open>0x38000\<close> has the
  14-bit foreground field \<open>0x3800\<close> (opaque black, as \<open>cucul_set_color_argb\<close> stores
  \<open>0xf000\<close>). \<open>cucul_attr_to_ansi_fg\<close> narrows the attribute to 16 bits before
  shifting, so bits 16 and 17 are lost: the quantizer receives \<open>0x0800\<close> and answers
  transparent (\<open>0x20\<close>). The quantization of the full field is black (0), which is
  also what the foreground half of \<open>_cucul_attr_to_ansi8\<close> gives for this attribute.
\<close>

theorem ansi_fg_loses_alpha_bits:
  "cucul_attr_to_ansi_fg 0x38000 = 0x20
   \<and> nearest_ansi (ucast (drop_bit 4 (0x38000 :: ulong) AND 0x3fff)) = 0
   \<and> cucul_attr_to_ansi8 0x38000 AND 0xf = 0"
  by code_simp

section \<open>Fullwidth pairs\<close>

lemma cell_index_nat:
  assumes "0 \<le> x" "0 \<le> y"
  shows "cell_index c x y = nat x + nat y * width c"
  using assms by (simp add: cell_index_def nat_add_distrib nat_mult_distrib)

lemma cell_index_less:
  assumes "canvas_ok c" "0 \<le> x" "x < int (width c)" "0 \<le> y" "y < int (height c)"
  shows "cell_index c x y < width c * height c"
proof -
  have a: "nat x < width c" "nat y < height c" using assms by auto
  have "nat x + nat y * width c < (nat y + 1) * width c" using a by simp
  also have "\<dots> \<le> height c * width c" using a by (intro mult_le_mono1) simp
  finally show ?thesis using assms by (simp add: cell_index_nat mult.commute)
qed

lemma cell_index_left:
  assumes "0 < x" "0 \<le> y"
  shows "cell_index c (x - 1) y = cell_index c x y - 1" "0 < cell_index c x y"
  using assms by (simp_all add: cell_index_nat nat_diff_distrib)

lemma cell_index_right:
  assumes "0 \<le> x" "0 \<le> y"
  shows "cell_index c (x + 1) y = cell_index c x y + 1"
  using assms by (simp add: cell_index_nat nat_add_distrib)

text \<open>
  Claim C9. For in-bounds \<open>(x, y)\<close> on a canvas whose buffers have one entry per cell,
  a successful \<open>cucul_putattr\<close> returns 0 and leaves the attributes of a fullwidth
  pair around \<open>(x, y)\<close> identical: if \<open>(x, y)\<close> is the continuation marker of a pair,
  the attribute at \<open>(x - 1, y)\<close> equals the one at \<open>(x, y)\<close>; if \<open>(x + 1, y)\<close> is the
  continuation marker of a pair (so \<open>x + 1 < width\<close> and \<open>(x, y)\<close> is its glyph cell),
  its attribute equals the one at \<open>(x, y)\<close>. Attributes are read with
  \<open>cucul_get_attr\<close>.
\<close>

theorem fullwidth_attrs_coupled:
  assumes ok: "canvas_ok (cv s)"
    and xb: "0 \<le> x" "x < int (width (cv s))"
    and yb: "0 \<le> y" "y < int (height (cv s))"
    and ab: "attr \<le> 0xffffffff"
  shows "fst (cucul_putattr s x y attr) = 0
     \<and> (let c' = cv (snd (cucul_putattr s x y attr))
        in (continuation_at c' x y \<longrightarrow> cucul_get_attr c' (x - 1) y = cucul_get_attr c' x y)
         \<and> (continuation_at c' (x + 1) y \<longrightarrow> cucul_get_attr c' (x + 1) y = cucul_get_attr c' x y))"
proof -
  define c where "c = cv s"
  define i where "i = cell_index c x y"
  define as1 where "as1 = (if attrs c ! i < 0x00000010
                   then (attrs c)[i := (curattr c AND 0xfffffff0) OR attrs c ! i]
                   else attrs c)"
  define as2 where "as2 = (if x \<noteq> 0 \<and> chars c ! i = CUCUL_MAGIC_FULLWIDTH
                   then as1[i - 1 := as1 ! i]
                   else if x + 1 < int (width c) \<and> chars c ! (i + 1) = CUCUL_MAGIC_FULLWIDTH
                   then as1[i + 1 := as1 ! i]
                   else as1)"
  have nb: "\<not> attr > 0xffffffff" "\<not> (x < 0 \<or> x \<ge> int (width c) \<or> y < 0 \<or> y \<ge> int (height c))"
    using xb yb ab by (auto simp: c_def not_less)
  have run: "cucul_putattr s x y attr = (0, s\<lparr>cv := c\<lparr>attrs := as2\<rparr>\<rparr>)"
    using nb unfolding cucul_putattr_def as2_def as1_def i_def c_def
    by (simp add: Let_def)
  have xc: "x < int (width c)" and yc: "y < int (height c)"
    using xb yb by (simp_all add: c_def)
  have il: "i < length (attrs c)"
    using cell_index_less [OF ok xb yb] ok by (simp add: i_def c_def canvas_ok_def)
  have l1: "length as1 = length (attrs c)" by (simp add: as1_def)
  define c' where "c' = c\<lparr>attrs := as2\<rparr>"
  have dims: "width c' = width c" "height c' = height c" "chars c' = chars c" "attrs c' = as2"
    by (simp_all add: c'_def)
  have idx: "cell_index c' x y = i" by (simp add: cell_index_def i_def dims)
  have get0: "cucul_get_attr c' x y = ucast (as2 ! i)"
    using nb by (simp add: cucul_get_attr_def dims idx)
  have left: "cucul_get_attr c' (x - 1) y = cucul_get_attr c' x y" if h: "continuation_at c' x y"
  proof -
    from h have x0: "0 < x" and m: "chars c ! i = CUCUL_MAGIC_FULLWIDTH"
      by (simp_all add: continuation_at_def dims idx)
    have a2: "as2 = as1[i - 1 := as1 ! i]" using x0 m by (simp add: as2_def)
    have ip: "0 < i" "cell_index c' (x - 1) y = i - 1"
      using cell_index_left [OF x0 yb(1), of c'] by (simp_all add: idx)
    have "cucul_get_attr c' (x - 1) y = ucast (as2 ! (i - 1))"
      using x0 xc yb yc by (simp add: cucul_get_attr_def dims ip)
    also have "as2 ! (i - 1) = as1 ! i" using il l1 ip by (simp add: a2)
    also have "as1 ! i = as2 ! i" using ip by (simp add: a2)
    finally show ?thesis by (simp add: get0)
  qed
  have right: "cucul_get_attr c' (x + 1) y = cucul_get_attr c' x y" if h: "continuation_at c' (x + 1) y"
  proof -
    have ir: "cell_index c' (x + 1) y = i + 1"
      using cell_index_right [OF xb(1) yb(1), of c'] by (simp add: idx)
    from h have xw: "x + 1 < int (width c)" and m: "chars c ! (i + 1) = CUCUL_MAGIC_FULLWIDTH"
      and g: "chars c ! i \<noteq> CUCUL_MAGIC_FULLWIDTH"
      by (simp_all add: continuation_at_def dims ir idx)
    have a2: "as2 = as1[i + 1 := as1 ! i]" using xw m g by (simp add: as2_def)
    have lt: "i + 1 < length as1"
      using cell_index_less [OF ok _ _ yb, of "x + 1"] xb xw ok ir
      by (simp add: l1 c_def canvas_ok_def cell_index_def dims)
    have "cucul_get_attr c' (x + 1) y = ucast (as2 ! (i + 1))"
      using xw xb yb yc by (simp add: cucul_get_attr_def dims ir)
    also have "as2 ! (i + 1) = as1 ! i" using lt by (simp add: a2)
    also have "as1 ! i = as2 ! i" by (simp add: a2)
    finally show ?thesis by (simp add: get0)
  qed
  show ?thesis using left right by (simp add: run Let_def c'_def)
qed

theorem fullwidth_attrs_coupled_witness:
  "canvas_ok (cv st3) \<and> continuation_at (cv (snd (cucul_putattr st3 1 0 0x01000470))) 2 0
   \<and> fst (cucul_putattr st3 1 0 0x01000470) = 0
   \<and> cucul_get_attr (cv (snd (cucul_putattr st3 1 0 0x01000470))) 2 0
       = cucul_get_attr (cv (snd (cucul_putattr st3 1 0 0x01000470))) 1 0"
  using fullwidth_attrs_coupled [of st3 1 0 "0x01000470"]
  by (simp add: st3_def row3_def canvas_ok_def continuation_at_def cucul_putattr_def
      cell_index_def Let_def CUCUL_MAGIC_FULLWIDTH_def)

section \<open>The ANSI quantizer\<close>












section \<open>Fields without the palette offset\<close>

lemma nearest_ansi_raw_table:
  "\<forall>n\<in>set [0..<64]. nearest_ansi (of_nat n) = of_nat n OR 0x40
      \<and> 0x40 \<le> nearest_ansi (of_nat n) \<and> nearest_ansi (of_nat n) \<le> 0x7f"
  by code_simp

lemma nearest_ansi_raw:
  fixes v :: uint16
  assumes "v < 0x40"
  shows "nearest_ansi v = ucast v OR 0x40 \<and> 0x40 \<le> nearest_ansi v \<and> nearest_ansi v \<le> 0x7f"
proof -
  have "unat v < 64" using assms by (simp add: word_less_nat_alt)
  then have "unat v \<in> set [0..<64]" by simp
  from nearest_ansi_raw_table [rule_format, OF this]
  show ?thesis unfolding of_nat_unat ucast_id .
qed

lemma fg_field_narrow:
  fixes attr :: ulong
  assumes "drop_bit 4 attr AND 0x3fff < 0x40"
  shows "drop_bit 4 (ucast attr :: uint16) AND 0x3fff = ucast (drop_bit 4 attr AND 0x3fff)"
proof -
  have "drop_bit 4 attr AND 0x3fff = (drop_bit 4 attr AND 0x3fff) AND mask 6"
    using assms by (simp add: less_mask_eq)
  then have e: "drop_bit 4 attr AND mask 14 = (drop_bit 4 attr AND mask 14) AND mask 6"
    by (simp add: mask_eq_exp_minus_1)
  have z: "n < 6" if "n < 14" "bit attr (4 + n)" for n
  proof -
    have "bit (drop_bit 4 attr AND mask 14) n" using that by (simp add: bit_simps)
    with e have "bit ((drop_bit 4 attr AND mask 14) AND mask 6) n" by metis
    then show ?thesis by (simp add: bit_simps)
  qed
  have "drop_bit 4 (ucast attr :: uint16) AND mask 14 = ucast (drop_bit 4 attr AND mask 14)"
    by (rule bit_word_eqI) (auto simp: bit_simps dest: z)
  then show ?thesis by (simp add: mask_eq_exp_minus_1)
qed

lemma bg_field_narrow:
  fixes attr :: ulong
  assumes "attr \<le> 0xffffffff"
  shows "(ucast (drop_bit 18 attr) :: uint16) = ucast (drop_bit 18 attr AND 0x3fff)"
proof -
  have "attr < 2 ^ 32" using assms by (simp add: word_less_nat_alt word_le_nat_alt)
  then have e: "attr = attr AND mask 32" by (simp add: less_mask_eq)
  have z: "n < 32" if "bit attr n" for n
  proof -
    from that e have "bit (attr AND mask 32) n" by metis
    then show ?thesis by (simp add: bit_simps)
  qed
  have "(ucast (drop_bit 18 attr) :: uint16) = ucast (drop_bit 18 attr AND mask 14)"
    by (rule bit_word_eqI) (auto simp: bit_simps dest: z)
  then show ?thesis by (simp add: mask_eq_exp_minus_1)
qed

lemma off_palette:
  fixes r :: uint8
  assumes "0x40 \<le> r"
  shows "\<not> r < 0x10 \<and> r \<noteq> of_nat CUCUL_DEFAULT \<and> r \<noteq> of_nat CUCUL_TRANSPARENT"
  using assms
  by (auto simp: CUCUL_DEFAULT_def CUCUL_TRANSPARENT_def word_le_nat_alt word_less_nat_alt)

lemma ucast_small:
  fixes w :: ulong
  assumes "w < 0x40"
  shows "(ucast w :: uint16) < 0x40" and "ucast (ucast w :: uint16) = (ucast w :: uint8)"
proof -
  have "unat w < 64" using assms by (simp add: word_less_nat_alt)
  then show "(ucast w :: uint16) < 0x40"
    by (simp add: word_less_nat_alt unsigned_ucast_eq take_bit_eq_mod)
  show "ucast (ucast w :: uint16) = (ucast w :: uint8)"
    by (rule bit_word_eqI) (auto simp: bit_simps)
qed

text \<open>
  What the quantizer does with a field that lacks the palette offset. The first test of
  \<open>nearest_ansi\<close>, \<open>argb14 < 0x50\<close>, is there to strip the offset from the palette
  fields \<open>0x40\<close> to \<open>0x4f\<close>, but it also catches every field below \<open>0x40\<close>, and for
  those \<open>argb14 ^ 0x40\<close> sets bit 6 instead of clearing it: the result lies between
  \<open>0x40\<close> and \<open>0x7f\<close>, which is neither a palette index nor a sentinel. For the
  background this is stated for attributes of at most 32 bits.
\<close>

lemma offsetless_field_result:
  fixes attr :: ulong
  shows "(drop_bit 4 attr AND 0x3fff < 0x40 \<longrightarrow>
            cucul_attr_to_ansi_fg attr = ucast (drop_bit 4 attr AND 0x3fff) OR 0x40
          \<and> 0x40 \<le> cucul_attr_to_ansi_fg attr \<and> cucul_attr_to_ansi_fg attr \<le> 0x7f
          \<and> \<not> cucul_attr_to_ansi_fg attr < 0x10
          \<and> cucul_attr_to_ansi_fg attr \<noteq> of_nat CUCUL_DEFAULT
          \<and> cucul_attr_to_ansi_fg attr \<noteq> of_nat CUCUL_TRANSPARENT)
       \<and> (attr \<le> 0xffffffff \<and> drop_bit 18 attr AND 0x3fff < 0x40 \<longrightarrow>
            cucul_attr_to_ansi_bg attr = ucast (drop_bit 18 attr AND 0x3fff) OR 0x40
          \<and> 0x40 \<le> cucul_attr_to_ansi_bg attr \<and> cucul_attr_to_ansi_bg attr \<le> 0x7f
          \<and> \<not> cucul_attr_to_ansi_bg attr < 0x10
          \<and> cucul_attr_to_ansi_bg attr \<noteq> of_nat CUCUL_DEFAULT
          \<and> cucul_attr_to_ansi_bg attr \<noteq> of_nat CUCUL_TRANSPARENT)"
proof -
  have fg: "cucul_attr_to_ansi_fg attr = ucast (drop_bit 4 attr AND 0x3fff) OR 0x40
          \<and> 0x40 \<le> cucul_attr_to_ansi_fg attr \<and> cucul_attr_to_ansi_fg attr \<le> 0x7f"
    if h: "drop_bit 4 attr AND 0x3fff < 0x40"
  proof -
    have e: "cucul_attr_to_ansi_fg attr = nearest_ansi (ucast (drop_bit 4 attr AND 0x3fff))"
      by (simp only: cucul_attr_to_ansi_fg_def fg_field_narrow [OF h])
    have n: "nearest_ansi (ucast (drop_bit 4 attr AND 0x3fff))
               = ucast (drop_bit 4 attr AND 0x3fff) OR 0x40
             \<and> 0x40 \<le> nearest_ansi (ucast (drop_bit 4 attr AND 0x3fff))
             \<and> nearest_ansi (ucast (drop_bit 4 attr AND 0x3fff)) \<le> 0x7f"
      using nearest_ansi_raw [OF ucast_small(1) [OF h]] unfolding ucast_small(2) [OF h] .
    show ?thesis unfolding e by (rule n)
  qed
  have bg: "cucul_attr_to_ansi_bg attr = ucast (drop_bit 18 attr AND 0x3fff) OR 0x40
          \<and> 0x40 \<le> cucul_attr_to_ansi_bg attr \<and> cucul_attr_to_ansi_bg attr \<le> 0x7f"
    if r: "attr \<le> 0xffffffff" and h: "drop_bit 18 attr AND 0x3fff < 0x40"
  proof -
    have e: "cucul_attr_to_ansi_bg attr = nearest_ansi (ucast (drop_bit 18 attr AND 0x3fff))"
      by (simp only: cucul_attr_to_ansi_bg_def bg_field_narrow [OF r])
    have n: "nearest_ansi (ucast (drop_bit 18 attr AND 0x3fff))
               = ucast (drop_bit 18 attr AND 0x3fff) OR 0x40
             \<and> 0x40 \<le> nearest_ansi (ucast (drop_bit 18 attr AND 0x3fff))
             \<and> nearest_ansi (ucast (drop_bit 18 attr AND 0x3fff)) \<le> 0x7f"
      using nearest_ansi_raw [OF ucast_small(1) [OF h]] unfolding ucast_small(2) [OF h] .
    show ?thesis unfolding e by (rule n)
  qed
  show ?thesis
    using fg bg off_palette [of "cucul_attr_to_ansi_fg attr"]
      off_palette [of "cucul_attr_to_ansi_bg attr"]
    by blast
qed

text \<open>
  Above 32 bits the background conversion is not covered by the lemma: it passes
  \<open>attr >> 18\<close> narrowed to 16 bits, so bits 32 and 33 of the attribute reach the
  quantizer.
\<close>

lemma ansi_bg_reads_bits_above_31: "cucul_attr_to_ansi_bg 0x100000000 = 0"
  by code_simp

text \<open>
  Claim C10, evaluated on the code at a failing input. \<open>cucul_set_color_argb\<close> with
  the colour \<open>0x1040\<close> for foreground and background succeeds and stores the field
  \<open>0x20\<close> in both halves of the current attribute, which becomes \<open>0x00800200\<close>. Both
  fields are below \<open>0x40\<close>. \<open>cucul_attr_to_ansi_fg\<close> and \<open>cucul_attr_to_ansi_bg\<close>
  return \<open>0x60\<close> for it, as \<open>cucul_attr_to_ansi_fg\<close> does for the bare attribute
  \<open>0x200\<close>. That value is outside \<open>0x40..0x4f\<close>, and it is none of the values the
  conversions are documented to return: not a palette index, not the default sentinel,
  not the transparent sentinel.
\<close>

theorem ansi_offsetless_field_not_a_colour:
  "cucul_set_color_argb st3 0x1040 0x1040 = (0, st3\<lparr>cv := row3\<lparr>curattr := 0x00800200\<rparr>\<rparr>)
   \<and> cucul_get_attr (row3\<lparr>curattr := 0x00800200\<rparr>) (- 1) (- 1) = 0x00800200
   \<and> drop_bit 4 (0x00800200 :: ulong) AND 0x3fff = 0x20
   \<and> drop_bit 18 (0x00800200 :: ulong) AND 0x3fff = 0x20
   \<and> cucul_attr_to_ansi_fg 0x00800200 = 0x60
   \<and> cucul_attr_to_ansi_bg 0x00800200 = 0x60
   \<and> cucul_attr_to_ansi_fg 0x200 = 0x60
   \<and> \<not> ((0x60 :: uint8) \<le> 0x4f)
   \<and> \<not> ((0x60 :: uint8) < 0x10)
   \<and> (0x60 :: uint8) \<noteq> of_nat CUCUL_DEFAULT
   \<and> (0x60 :: uint8) \<noteq> of_nat CUCUL_TRANSPARENT"
proof -
  have a: "cucul_set_color_argb st3 0x1040 0x1040
             = (0, st3\<lparr>cv := row3\<lparr>curattr := 0x00800200\<rparr>\<rparr>)"
    by (simp add: cucul_set_color_argb_def st3_def row3_def Let_def)
  have b: "cucul_get_attr (row3\<lparr>curattr := 0x00800200\<rparr>) (- 1) (- 1) = 0x00800200"
    by (simp add: cucul_get_attr_def)
  have c: "cucul_attr_to_ansi_fg 0x00800200 = 0x60" "cucul_attr_to_ansi_bg 0x00800200 = 0x60"
    "cucul_attr_to_ansi_fg 0x200 = 0x60"
    by code_simp+
  have d: "drop_bit 4 (0x00800200 :: ulong) AND 0x3fff = 0x20"
    "drop_bit 18 (0x00800200 :: ulong) AND 0x3fff = 0x20"
    by simp_all
  have e: "\<not> ((0x60 :: uint8) \<le> 0x4f)" "\<not> ((0x60 :: uint8) < 0x10)"
    "(0x60 :: uint8) \<noteq> of_nat CUCUL_DEFAULT" "(0x60 :: uint8) \<noteq> of_nat CUCUL_TRANSPARENT"
    by (simp_all add: CUCUL_DEFAULT_def CUCUL_TRANSPARENT_def)
  show ?thesis using a b c d e by blast
qed

section \<open>ARGB4 output\<close>

lemma nat_and_15: "(k :: nat) AND 0xf = k mod 16"
proof -
  have "(0xf :: nat) = mask 4" by (simp add: mask_eq_exp_minus_1)
  then show ?thesis by (simp only: flip: take_bit_eq_mask) (simp add: take_bit_eq_mod)
qed

lemma unat_nibble:
  fixes c :: uint16
  shows "unat (ucast (drop_bit k c AND 0xf) :: uint8) = (unat c div 2 ^ k) mod 16"
proof -
  have "unat (drop_bit k c AND 0xf) = (unat c div 2 ^ k) mod 16"
    by (simp add: unsigned_and_eq unat_drop_bit_eq nat_and_15) (simp add: drop_bit_eq_div)
  moreover have "(unat c div 2 ^ k) mod 16 < 256"
    by (rule less_trans [OF mod_less_divisor]) simp_all
  ultimately show ?thesis
    by (simp add: unsigned_ucast_eq take_bit_eq_mod)
qed

lemma unat_top_nibble:
  fixes c :: uint16
  shows "unat (ucast (drop_bit 12 c) :: uint8) = unat c div 2 ^ 12"
proof -
  have "unat c < 2 ^ 16" using unsigned_less [of c] by simp
  then have "unat c div 2 ^ 12 < 16" by simp
  moreover have "unat (drop_bit 12 c) = unat c div 2 ^ 12"
    by (simp only: unat_drop_bit_eq) (simp only: drop_bit_eq_div)
  ultimately show ?thesis
    by (simp only: unsigned_ucast_eq take_bit_eq_mod) simp
qed

lemma nibble_sum:
  fixes n :: nat
  shows "4096 * (n div 4096) + 256 * (n div 256 mod 16) + n div 16 mod 16 * 16 + n mod 16 = n"
proof -
  have d2: "n div 256 = n div 16 div 16"
  proof -
    have "n div 256 = n div (16 * 16)" by simp
    also have "\<dots> = n div 16 div 16" by (rule div_mult2_eq)
    finally show ?thesis .
  qed
  have d3: "n div 4096 = n div 256 div 16"
  proof -
    have "n div 4096 = n div (256 * 16)" by simp
    also have "\<dots> = n div 256 div 16" by (rule div_mult2_eq)
    finally show ?thesis .
  qed
  have a: "n = (n div 16) * 16 + n mod 16"
    by (rule div_mult_mod_eq [symmetric])
  have b: "n div 16 = (n div 256) * 16 + n div 16 mod 16"
    unfolding d2 by (rule div_mult_mod_eq [symmetric])
  have c: "n div 256 = (n div 4096) * 16 + n div 256 mod 16"
    unfolding d3 by (rule div_mult_mod_eq [symmetric])
  show ?thesis using a b c by linarith
qed

lemma join_nibbles_nibbles: "join_nibbles (nibbles c) = unat c"
proof -
  have "unat c < 2 ^ 16" using unsigned_less [of c] by simp
  then show ?thesis
    using unat_nibble [of 8 c] unat_nibble [of 4 c] unat_nibble [of 0 c] unat_top_nibble [of c]
    unfolding join_nibbles_def nibbles_def by (simp add: nibble_sum)
qed

lemma nibbles_small: "\<forall>n\<in>set (nibbles c). n < 16"
proof -
  have "unat c < 2 ^ 16" using unsigned_less [of c] by simp
  then have "unat c div 2 ^ 12 < 16" by simp
  then show ?thesis
    using unat_nibble [of 8 c] unat_nibble [of 4 c] unat_nibble [of 0 c] unat_top_nibble [of c]
    by (simp add: nibbles_def word_less_nat_alt)
qed

lemma length_nibbles: "length (nibbles c) = 4"
  by (simp add: nibbles_def)

lemma palette_entry_table:
  "\<forall>n\<in>set [0x40..<0x50].
     tab_at ansitab16 (unat ((of_nat n :: uint16) XOR 0x40)) = Some (ansitab16 ! (n - 0x40))"
  by code_simp

lemma palette_entry:
  fixes v :: uint16
  assumes "0x40 \<le> v" "v < 0x50"
  shows "tab_at ansitab16 (unat (v XOR 0x40)) = Some (ansitab16 ! (unat v - 0x40))"
proof -
  have "unat v \<in> set [0x40..<0x50]"
    unfolding set_upt using assms by (simp add: word_le_nat_alt word_less_nat_alt)
  from palette_entry_table [rule_format, OF this]
  show ?thesis unfolding of_nat_unat ucast_id .
qed

lemma resolve_field:
  fixes v :: uint16
  assumes "0x40 \<le> v" and "dflt < 16"
  shows "(if v < (0x10 OR 0x40) then tab_at ansitab16 (unat (v XOR 0x40))
          else if v = (of_nat CUCUL_DEFAULT OR 0x40) then tab_at ansitab16 dflt
          else if v = (of_nat CUCUL_TRANSPARENT OR 0x40) then Some 0x0fff
          else Some ((push_bit 2 v AND 0xf000) OR (push_bit 1 v AND 0x0fff)))
         = Some (argb16_spec dflt v)"
  using palette_entry [OF assms(1)] assms(2)
  by (simp add: argb16_spec_def CUCUL_DEFAULT_def CUCUL_TRANSPARENT_def tab_at_def ansitab16_def)

lemma palette_defaults: "CUCUL_BLACK < 16" "CUCUL_LIGHTGRAY < 16"
  by (simp_all add: CUCUL_BLACK_def CUCUL_LIGHTGRAY_def)

text \<open>
  Claim C8, amended. For a 32-bit attribute whose background and foreground fields both
  carry the palette offset (are at least \<open>0x40\<close>), \<open>_cucul_attr_to_argb4\<close> writes eight
  nibbles, each below 16: the first four are the background group and the last four the
  foreground group, each most significant nibble first, so that a group read as one
  number is the 16-bit ARGB value of its field. That value is the palette entry for a
  palette index, black (background) or light gray (foreground) for the default sentinel,
  \<open>0x0fff\<close> (alpha zero) for the transparent sentinel in both groups, and
  \<open>((v << 2) & 0xf000) | ((v << 1) & 0x0fff)\<close> for a truecolor value.
\<close>

theorem argb4_layout:
  fixes attr :: uint32
  assumes "0x40 \<le> (ucast (drop_bit 18 attr) :: uint16)"
    and "0x40 \<le> (ucast (drop_bit 4 attr AND 0x3fff) :: uint16)"
  shows "\<exists>out. cucul_attr_to_argb4 attr = Some out \<and> length out = 8
           \<and> (\<forall>n\<in>set out. n < 16)
           \<and> join_nibbles (take 4 out)
               = unat (argb16_spec CUCUL_BLACK (ucast (drop_bit 18 attr)))
           \<and> join_nibbles (drop 4 out)
               = unat (argb16_spec CUCUL_LIGHTGRAY (ucast (drop_bit 4 attr AND 0x3fff)))"
proof -
  define b where "b = argb16_spec CUCUL_BLACK (ucast (drop_bit 18 attr))"
  define f where "f = argb16_spec CUCUL_LIGHTGRAY (ucast (drop_bit 4 attr AND 0x3fff))"
  have run: "cucul_attr_to_argb4 attr = Some (nibbles b @ nibbles f)"
    unfolding cucul_attr_to_argb4_def Let_def
      resolve_field [OF assms(1) palette_defaults(1)]
      resolve_field [OF assms(2) palette_defaults(2)]
    by (simp add: b_def f_def)
  show ?thesis
    using nibbles_small [of b] nibbles_small [of f]
    by (auto simp: run length_nibbles join_nibbles_nibbles b_def f_def)
qed

theorem argb4_layout_witness:
  "0x40 \<le> (ucast (drop_bit 18 (0xeaf2def0 :: uint32)) :: uint16)
   \<and> 0x40 \<le> (ucast (drop_bit 4 (0xeaf2def0 :: uint32) AND 0x3fff) :: uint16)
   \<and> (\<exists>out. cucul_attr_to_argb4 0xeaf2def0 = Some out \<and> length out = 8
         \<and> join_nibbles (take 4 out) = 0xe578 \<and> join_nibbles (drop 4 out) = 0xbbde)
   \<and> (\<exists>out. cucul_attr_to_argb4 0x01800500 = Some out \<and> length out = 8
         \<and> join_nibbles (take 4 out) = 0x0fff \<and> join_nibbles (drop 4 out) = 0xfaaa)"
  using argb4_layout [of "0xeaf2def0"] argb4_layout [of "0x01800500"]
  by (simp add: argb16_spec_def ansitab16_def CUCUL_BLACK_def CUCUL_LIGHTGRAY_def) blast

text \<open>
  A field below \<open>0x40\<close> takes the palette branch and indexes \<open>ansitab16\<close> at
  \<open>field ^ 0x40\<close>, which is 64 or more: a read past the end of the table.
\<close>

lemma argb4_offsetless_field_leaves_table: "cucul_attr_to_argb4 0 = None"
  by code_simp

text \<open>
  Claim C8 as stated fails on the transparent sentinel. The attribute \<open>0x01800600\<close> has
  the transparent sentinel in both fields. The RGB12 path resolves it to black
  (background) and light gray (foreground); \<open>_cucul_attr_to_argb4\<close> writes
  \<open>0, f, f, f\<close> for both groups, which is not the nibbles of black followed by the
  nibbles of light gray.
\<close>

theorem argb4_transparent_counterexample:
  "cucul_attr_to_argb4 0x01800600 = Some [0, 0xf, 0xf, 0xf, 0, 0xf, 0xf, 0xf]
   \<and> cucul_attr_to_rgb12bg 0x01800600 = Some 0x000
   \<and> cucul_attr_to_rgb12fg 0x01800600 = Some 0xaaa
   \<and> cucul_attr_to_argb4 0x01800600
        \<noteq> Some (nibbles (ansitab16 ! CUCUL_BLACK) @ nibbles (ansitab16 ! CUCUL_LIGHTGRAY))"
  by code_simp

end
